theory Spec2Isabelle
  imports Main "HOL-Library.AList"
begin

section \<open>JavaScript values and the conversions the server relies on\<close>

text \<open>
  The backend (the Express server of the design agent) reads request bodies and stored
  documents as values of type \<^verbatim>\<open>any\<close>. Fields that the code only stores, compares or
  converts to text are therefore kept as JSON values. \<open>JNum\<close> stands for an integer-valued
  number in the safe range (absolute value below \<open>2^53\<close>); fractions are left out.
\<close>

datatype json =
    JUndefined
  | JNull
  | JBool bool
  | JNum int
  | JStr string
  | JArr "json list"
  | JObj "(string \<times> json) list"

datatype js_error = TypeError | RangeError | APIError

text \<open>The falsy values of JavaScript, as tested by \<^verbatim>\<open>||\<close>, \<^verbatim>\<open>!\<close> and \<^verbatim>\<open>!!\<close>.\<close>

fun truthy :: "json \<Rightarrow> bool" where
  "truthy JUndefined = False"
| "truthy JNull = False"
| "truthy (JBool b) = b"
| "truthy (JNum n) = (n \<noteq> 0)"
| "truthy (JStr s) = (s \<noteq> [])"
| "truthy (JArr xs) = True"
| "truthy (JObj kvs) = True"

fun nullish :: "json \<Rightarrow> bool" where
  "nullish JUndefined = True"
| "nullish JNull = True"
| "nullish v = False"

text \<open>
  \<^verbatim>\<open>v.k\<close> for the keys read by the server (\<^verbatim>\<open>colorPalette\<close>, \<^verbatim>\<open>fonts\<close>, \<^verbatim>\<open>title\<close>, \<^verbatim>\<open>copy\<close>,
  \<^verbatim>\<open>description\<close>, \<^verbatim>\<open>cta\<close>, \<^verbatim>\<open>footerContent\<close>), none of which names a built-in property of
  strings, numbers, booleans or arrays: reading a property of \<^verbatim>\<open>null\<close> or \<^verbatim>\<open>undefined\<close>
  throws a TypeError, an object yields its own property, anything else \<^verbatim>\<open>undefined\<close>.
\<close>

fun property :: "json \<Rightarrow> string \<Rightarrow> js_error + json" where
  "property JUndefined k = Inl TypeError"
| "property JNull k = Inl TypeError"
| "property (JObj kvs) k = (case map_of kvs k of None \<Rightarrow> Inr JUndefined | Some v \<Rightarrow> Inr v)"
| "property v k = Inr JUndefined"

definition digit_char :: "nat \<Rightarrow> char" where
  "digit_char d = ''0123456789'' ! d"

text \<open>\<^verbatim>\<open>Number.prototype.toString\<close> on integers: the decimal digits, most significant first.\<close>

fun decimal :: "nat \<Rightarrow> string \<Rightarrow> string" where
  "decimal n acc =
     (if n < 10 then digit_char n # acc else decimal (n div 10) (digit_char (n mod 10) # acc))"

declare decimal.simps [simp del]

definition Number_toString :: "int \<Rightarrow> string" where
  "Number_toString i = (if i < 0 then CHR ''-'' # decimal (nat (- i)) [] else decimal (nat i) [])"

text \<open>
  \<^verbatim>\<open>ToString\<close>, as applied by a template literal, and \<^verbatim>\<open>Array.prototype.join\<close>. A plain
  object prints as \<^verbatim>\<open>[object Object]\<close>; an object whose own key \<^verbatim>\<open>toString\<close> shadows the
  inherited method has no callable conversion left (its own value is data, and the inherited
  \<^verbatim>\<open>valueOf\<close> returns the object itself), so converting it throws a TypeError. \<^verbatim>\<open>join\<close>
  prints \<^verbatim>\<open>null\<close> and \<^verbatim>\<open>undefined\<close> elements as the empty string.
\<close>

fun ToString :: "json \<Rightarrow> js_error + string"
  and join :: "string \<Rightarrow> json list \<Rightarrow> js_error + string" where
  "ToString JUndefined = Inr ''undefined''"
| "ToString JNull = Inr ''null''"
| "ToString (JBool b) = Inr (if b then ''true'' else ''false'')"
| "ToString (JNum n) = Inr (Number_toString n)"
| "ToString (JStr s) = Inr s"
| "ToString (JArr xs) = join '','' xs"
| "ToString (JObj kvs) =
     (if ''toString'' \<in> fst ` set kvs then Inl TypeError else Inr ''[object Object]'')"
| "join sep [] = Inr []"
| "join sep (x # xs) =
     (case (if nullish x then Inr [] else ToString x) of
        Inl e \<Rightarrow> Inl e
      | Inr s \<Rightarrow>
          (if xs = [] then Inr s
           else case join sep xs of Inl e \<Rightarrow> Inl e | Inr t \<Rightarrow> Inr (s @ sep @ t)))"

text \<open>\<^verbatim>\<open>String.prototype.toUpperCase\<close> on the ASCII letters; other bytes are left as they are.\<close>

definition upper_char :: "char \<Rightarrow> char" where
  "upper_char c =
     (case map_of (zip ''abcdefghijklmnopqrstuvwxyz'' ''ABCDEFGHIJKLMNOPQRSTUVWXYZ'') c of
        None \<Rightarrow> c
      | Some u \<Rightarrow> u)"

definition toUpperCase :: "string \<Rightarrow> string" where
  "toUpperCase s = map upper_char s"

section \<open>Documents of the store\<close>

text \<open>
  The documents as the route handlers write them. Every document carries the two time
  stamps; projects and designs also carry the owner's \<^verbatim>\<open>userId\<close>, which comes from the
  verified token and is a string. Fields copied from a request body without any check are
  JSON values.
\<close>

record stamped =
  createdAt :: nat
  updatedAt :: nat

record owned = stamped +
  userId :: string

record user = stamped +
  email :: string
  password :: string
  firstName :: string
  lastName :: string
  role :: string

record project = owned +
  name :: json
  description :: json
  brandElements :: json
  designType :: json

record design = owned +
  projectId :: string
  content :: json
  baseReferenceImage :: json
  generatedImages :: "string list"
  currentVersion :: int
  isActive :: bool

record trainingDoc = stamped +
  uploadedBy :: string
  imagePath :: "string list"
  td_designType :: json
  tags :: "string list"
  td_description :: json
  isProcessed :: bool

section \<open>The generation adapter\<close>

text \<open>
  The process environment: the three provider keys. A client object exists when its key is
  a non-empty string (\<^verbatim>\<open>if (process.env.OPENAI_API_KEY)\<close>; the constructors are taken not to
  throw); there is no client for qwen.
\<close>

record environment =
  OPENAI_API_KEY :: "string option"
  GEMINI_API_KEY :: "string option"
  QWEN_API_KEY :: "string option"
  UPLOAD_PATH :: "string option"

definition configured :: "string option \<Rightarrow> bool" where
  "configured key = (case key of None \<Rightarrow> False | Some k \<Rightarrow> k \<noteq> [])"

definition openai :: "environment \<Rightarrow> bool" where
  "openai env = configured (OPENAI_API_KEY env)"

definition gemini :: "environment \<Rightarrow> bool" where
  "gemini env = configured (GEMINI_API_KEY env)"

text \<open>
  What \<^verbatim>\<open>await openai.images.generate(...)\<close> can do: reject, or resolve to a response whose
  \<^verbatim>\<open>data\<close> array holds images with an optional \<^verbatim>\<open>url\<close>. The live service is a parameter of
  the model, a function from the prompt sent to the outcome.
\<close>

datatype api_result = Rejects | Resolves "string option list"

type_synonym images_api = "string \<Rightarrow> api_result"

text \<open>\<^verbatim>\<open>project.brandElements?.colorPalette?.join(', ') || 'default'\<close>, for either key.\<close>

definition brand_text :: "json \<Rightarrow> string \<Rightarrow> string \<Rightarrow> js_error + string" where
  "brand_text be k dflt =
     (if nullish be then Inr dflt
      else case property be k of
        Inl e \<Rightarrow> Inl e
      | Inr v \<Rightarrow>
          (if nullish v then Inr dflt
           else case v of
             JArr xs \<Rightarrow>
               (case join '', '' xs of
                  Inl e \<Rightarrow> Inl e
                | Inr s \<Rightarrow> Inr (if s = [] then dflt else s))
           | _ \<Rightarrow> Inl TypeError))"

text \<open>\<^verbatim>\<open>${content.title || ''}\<close>, for each of the five content keys.\<close>

definition content_text :: "json \<Rightarrow> string \<Rightarrow> js_error + string" where
  "content_text c k =
     (case property c k of
        Inl e \<Rightarrow> Inl e
      | Inr v \<Rightarrow> if truthy v then ToString v else Inr [])"

definition nl :: string where
  "nl = [CHR 0x0A] @ ''    ''"

text \<open>
  The template literal that opens \<^verbatim>\<open>generateDesign\<close>. It is evaluated before the
  \<^verbatim>\<open>try\<close> block is entered, so an exception raised here leaves the function.
\<close>

definition buildPrompt :: "project \<Rightarrow> json \<Rightarrow> js_error + string" where
  "buildPrompt p c =
     (case ToString (designType p) of Inl e \<Rightarrow> Inl e | Inr dt \<Rightarrow>
      case brand_text (brandElements p) ''colorPalette'' ''default'' of Inl e \<Rightarrow> Inl e | Inr colors \<Rightarrow>
      case brand_text (brandElements p) ''fonts'' ''modern'' of Inl e \<Rightarrow> Inl e | Inr fonts \<Rightarrow>
      case content_text c ''title'' of Inl e \<Rightarrow> Inl e | Inr title \<Rightarrow>
      case content_text c ''copy'' of Inl e \<Rightarrow> Inl e | Inr copy \<Rightarrow>
      case content_text c ''description'' of Inl e \<Rightarrow> Inl e | Inr descr \<Rightarrow>
      case content_text c ''cta'' of Inl e \<Rightarrow> Inl e | Inr cta \<Rightarrow>
      case content_text c ''footerContent'' of Inl e \<Rightarrow> Inl e | Inr footer \<Rightarrow>
        Inr (''Create a professional '' @ dt @ '' design. '' @ nl
             @ ''Colors: '' @ colors @ nl
             @ ''Fonts: '' @ fonts @ nl
             @ ''Title: '' @ title @ nl
             @ ''Copy: '' @ copy @ nl
             @ ''Description: '' @ descr @ nl
             @ ''CTA: '' @ cta @ nl
             @ ''Footer: '' @ footer @ nl
             @ ''Make it modern, professional, and visually appealing.''))"

definition placeholder :: "string \<Rightarrow> string \<Rightarrow> string" where
  "placeholder colour label = ''https://via.placeholder.com/1024x1024/'' @ colour @ ''/FFFFFF?text='' @ label"

text \<open>
  The body of the \<^verbatim>\<open>try\<close> block: the \<^verbatim>\<open>switch\<close> over the provider. The only statements
  that can throw are the live call and the read of \<^verbatim>\<open>response.data[0].url\<close> on an empty
  \<^verbatim>\<open>data\<close> array.
\<close>

definition dispatch :: "environment \<Rightarrow> images_api \<Rightarrow> string \<Rightarrow> string \<Rightarrow> js_error + string" where
  "dispatch env api prompt provider =
     (if provider = ''openai'' then
        (if \<not> openai env then Inr (placeholder ''FF6B6B'' ''OpenAI+Not+Configured'')
         else case api prompt of
           Rejects \<Rightarrow> Inl APIError
         | Resolves [] \<Rightarrow> Inl TypeError
         | Resolves (img # _) \<Rightarrow> Inr (case img of None \<Rightarrow> [] | Some url \<Rightarrow> url))
      else if provider = ''gemini'' then
        (if \<not> gemini env then Inr (placeholder ''4F46E5'' ''Gemini+Not+Configured'')
         else Inr (placeholder ''4F46E5'' ''Gemini+Generated+Design''))
      else if provider = ''qwen'' then Inr (placeholder ''10B981'' ''Qwen+Generated+Design'')
      else Inr (placeholder ''6B7280'' (''Demo+Design+'' @ toUpperCase provider)))"

text \<open>
  \<^verbatim>\<open>generateDesign\<close>: \<open>Inl\<close> is an exception that reaches the caller (a rejected promise),
  \<open>Inr\<close> the URL returned. The \<^verbatim>\<open>catch\<close> clause turns every exception of the \<^verbatim>\<open>try\<close> block
  into the error placeholder.
\<close>

definition generateDesign ::
  "environment \<Rightarrow> images_api \<Rightarrow> project \<Rightarrow> json \<Rightarrow> string \<Rightarrow> js_error + string" where
  "generateDesign env api p c provider =
     (case buildPrompt p c of
        Inl e \<Rightarrow> Inl e
      | Inr prompt \<Rightarrow>
          (case dispatch env api prompt provider of
             Inl e \<Rightarrow> Inr (placeholder ''EF4444'' ''Error+Generating+Design'')
           | Inr url \<Rightarrow> Inr url))"

text \<open>
  What the repository's type declarations \<^verbatim>\<open>Project\<close>, \<^verbatim>\<open>BrandElements\<close> and
  \<^verbatim>\<open>DesignContent\<close> ask of the values that \<^verbatim>\<open>generateDesign\<close> reads: a string for the
  design type, arrays of strings for the palette and the fonts, strings for the content
  fields, each of them optional here as the code treats them. The server declares its
  parameters \<^verbatim>\<open>any\<close> and checks none of this.
\<close>

fun is_string :: "json \<Rightarrow> bool" where
  "is_string (JStr s) = True"
| "is_string v = False"

fun string_array :: "json \<Rightarrow> bool" where
  "string_array (JArr xs) = list_all is_string xs"
| "string_array v = False"

definition optional :: "(json \<Rightarrow> bool) \<Rightarrow> json \<Rightarrow> string \<Rightarrow> bool" where
  "optional ty obj k = (case property obj k of Inl e \<Rightarrow> False | Inr v \<Rightarrow> v = JUndefined \<or> ty v)"

definition is_BrandElements :: "json \<Rightarrow> bool" where
  "is_BrandElements be =
     (case be of
        JObj kvs \<Rightarrow> optional string_array be ''colorPalette'' \<and> optional string_array be ''fonts''
      | _ \<Rightarrow> False)"

definition is_Project :: "project \<Rightarrow> bool" where
  "is_Project p = (is_string (designType p) \<and> is_BrandElements (brandElements p))"

definition is_DesignContent :: "json \<Rightarrow> bool" where
  "is_DesignContent c =
     (case c of
        JObj kvs \<Rightarrow> list_all (optional is_string c)
                     [''title'', ''copy'', ''description'', ''cta'', ''footerContent'']
      | _ \<Rightarrow> False)"

section \<open>Tokens, responses and the store\<close>

text \<open>
  \<^verbatim>\<open>jwt.sign\<close> and \<^verbatim>\<open>jwt.verify\<close> are taken as ideal: a token is its signed payload, the
  user identifier and the role. The \<^verbatim>\<open>Authorization\<close> header of a request is absent (or
  leaves an empty token), or carries something \<^verbatim>\<open>jwt.verify\<close> refuses (malformed, wrongly
  signed or expired), or carries a token that verifies.
\<close>

datatype token = Token string string

datatype authorization = NoToken | BadToken | Bearer token

datatype userView = UserView string string string string string

datatype body =
    Message string
  | Authenticated string token userView
  | Profile string string string string string nat nat
  | ProjectList "(string \<times> project) list"
  | ProjectJson string project
  | DesignList "(string \<times> design) list"
  | DesignJson string design
  | Generated string "string list" int string
  | ProviderList "(string \<times> bool) list"
  | TrainingJson string string trainingDoc
  | Health string string "string list" string

record response =
  status :: nat
  payload :: body

definition reply :: "nat \<Rightarrow> body \<Rightarrow> response" where
  "reply code b = \<lparr>status = code, payload = b\<rparr>"

text \<open>
  The collections are lists of identifier and document. \<^verbatim>\<open>add\<close> takes the identifier that
  the store assigns as a parameter.
\<close>

record store =
  users :: "(string \<times> user) list"
  projects :: "(string \<times> project) list"
  designs :: "(string \<times> design) list"
  trainingData :: "(string \<times> trainingDoc) list"
  files :: "(string list \<times> string) list"

definition add :: "string \<Rightarrow> 'a \<Rightarrow> (string \<times> 'a) list \<Rightarrow> (string \<times> 'a) list" where
  "add newId d coll = coll @ [(newId, d)]"

definition doc :: "(string \<times> 'a) list \<Rightarrow> string \<Rightarrow> 'a option" where
  "doc coll i = map_of coll i"

definition whereEq :: "('a \<Rightarrow> 'b) \<Rightarrow> 'b \<Rightarrow> (string \<times> 'a) list \<Rightarrow> (string \<times> 'a) list" where
  "whereEq field v coll = filter (\<lambda>(i, d). field d = v) coll"

definition orderByDesc :: "('a \<Rightarrow> nat) \<Rightarrow> (string \<times> 'a) list \<Rightarrow> (string \<times> 'a) list" where
  "orderByDesc field coll = rev (sort_key (\<lambda>(i, d). field d) coll)"

text \<open>The \<^verbatim>\<open>auth\<close> middleware: \<open>Inl\<close> is the response that ends the request.\<close>

definition auth :: "authorization \<Rightarrow> response + token" where
  "auth h =
     (case h of
        NoToken \<Rightarrow> Inl (reply 401 (Message ''No token, authorization denied''))
      | BadToken \<Rightarrow> Inl (reply 401 (Message ''Token is not valid''))
      | Bearer t \<Rightarrow> Inr t)"

section \<open>Registration and login\<close>

text \<open>
  \<^verbatim>\<open>bcrypt\<close> is taken as ideal on the 72 bytes it reads: a hash determines them, and
  \<^verbatim>\<open>compare\<close> recomputes it.
\<close>

definition bcrypt_hash :: "string \<Rightarrow> string" where
  "bcrypt_hash pw = take 72 pw"

definition bcrypt_compare :: "string \<Rightarrow> string \<Rightarrow> bool" where
  "bcrypt_compare pw hashed = (bcrypt_hash pw = hashed)"

text \<open>
  \<open>others\<close> holds the fields of the request body that the handler does not destructure,
  a \<^verbatim>\<open>role\<close> among them if the caller sent one.
\<close>

definition register ::
  "store \<Rightarrow> string \<Rightarrow> string \<Rightarrow> string \<Rightarrow> string \<Rightarrow> (string \<times> json) list \<Rightarrow> string \<Rightarrow> nat
     \<Rightarrow> store \<times> response" where
  "register s mail pw fname lname others newId now =
     (if whereEq email mail (users s) \<noteq> [] then
        (s, reply 400 (Message ''User already exists''))
      else
        let userData = \<lparr>createdAt = now, updatedAt = now, email = mail,
                         password = bcrypt_hash pw, firstName = fname, lastName = lname,
                         role = ''user''\<rparr>
        in (s\<lparr>users := add newId userData (users s)\<rparr>,
            reply 201 (Authenticated ''User created successfully''
              (Token newId (role userData))
              (UserView newId (email userData) (firstName userData) (lastName userData)
                 (role userData)))))"

definition login :: "store \<Rightarrow> string \<Rightarrow> string \<Rightarrow> store \<times> response" where
  "login s mail pw =
     (case whereEq email mail (users s) of
        [] \<Rightarrow> (s, reply 400 (Message ''Invalid credentials''))
      | (uid, userData) # _ \<Rightarrow>
          if \<not> bcrypt_compare pw (password userData) then
            (s, reply 400 (Message ''Invalid credentials''))
          else
            (s, reply 200 (Authenticated ''Login successful''
              (Token uid (role userData))
              (UserView uid (email userData) (firstName userData) (lastName userData)
                 (role userData)))))"

text \<open>\<^verbatim>\<open>GET /api/auth/me\<close>: the stored user without the password.\<close>

definition me :: "store \<Rightarrow> authorization \<Rightarrow> store \<times> response" where
  "me s h =
     (case auth h of
        Inl r \<Rightarrow> (s, r)
      | Inr (Token uid rl) \<Rightarrow>
          (case doc (users s) uid of
             None \<Rightarrow> (s, reply 404 (Message ''User not found''))
           | Some userData \<Rightarrow>
               (s, reply 200 (Profile uid (email userData) (firstName userData)
                  (lastName userData) (role userData) (createdAt userData)
                  (updatedAt userData)))))"

section \<open>Projects and designs\<close>

definition list_projects :: "store \<Rightarrow> authorization \<Rightarrow> store \<times> response" where
  "list_projects s h =
     (case auth h of
        Inl r \<Rightarrow> (s, r)
      | Inr (Token uid rl) \<Rightarrow>
          (s, reply 200 (ProjectList (orderByDesc createdAt (whereEq userId uid (projects s))))))"

definition create_project ::
  "store \<Rightarrow> authorization \<Rightarrow> json \<Rightarrow> json \<Rightarrow> json \<Rightarrow> json \<Rightarrow> string \<Rightarrow> nat \<Rightarrow> store \<times> response" where
  "create_project s h nm descr be dt newId now =
     (case auth h of
        Inl r \<Rightarrow> (s, r)
      | Inr (Token uid rl) \<Rightarrow>
          let projectData = \<lparr>createdAt = now, updatedAt = now, userId = uid, name = nm,
                description = descr,
                brandElements =
                  (if truthy be then be
                   else JObj [(''colorPalette'', JArr []), (''fonts'', JArr [])]),
                designType = dt\<rparr>
          in (s\<lparr>projects := add newId projectData (projects s)\<rparr>,
              reply 201 (ProjectJson newId projectData)))"

definition list_designs :: "store \<Rightarrow> authorization \<Rightarrow> string \<Rightarrow> store \<times> response" where
  "list_designs s h pid =
     (case auth h of
        Inl r \<Rightarrow> (s, r)
      | Inr (Token uid rl) \<Rightarrow>
          (s, reply 200 (DesignList
             (orderByDesc createdAt (whereEq userId uid (whereEq projectId pid (designs s)))))))"

definition create_design ::
  "store \<Rightarrow> authorization \<Rightarrow> string \<Rightarrow> json \<Rightarrow> json \<Rightarrow> string \<Rightarrow> nat \<Rightarrow> store \<times> response" where
  "create_design s h pid c ref newId now =
     (case auth h of
        Inl r \<Rightarrow> (s, r)
      | Inr (Token uid rl) \<Rightarrow>
          (case doc (projects s) pid of
             None \<Rightarrow> (s, reply 404 (Message ''Project not found''))
           | Some projectData \<Rightarrow>
               if userId projectData \<noteq> uid then
                 (s, reply 404 (Message ''Project not found''))
               else
                 let designData = \<lparr>createdAt = now, updatedAt = now, userId = uid,
                       projectId = pid, content = (if truthy c then c else JObj []),
                       baseReferenceImage = ref, generatedImages = [],
                       currentVersion = 0, isActive = True\<rparr>
                 in (s\<lparr>designs := add newId designData (designs s)\<rparr>,
                     reply 201 (DesignJson newId designData))))"

text \<open>
  \<^verbatim>\<open>Array.from({ length: count }, f)\<close>: the length is \<^verbatim>\<open>ToLength(count)\<close>, which is 0 for a
  negative number; constructing an array longer than \<open>2^32 - 1\<close> throws a RangeError.
\<close>

definition Array_from :: "int \<Rightarrow> (nat \<Rightarrow> 'a) \<Rightarrow> js_error + 'a list" where
  "Array_from len f =
     (if len > 4294967295 then Inl RangeError else Inr (map f [0..<nat len]))"

text \<open>\<^verbatim>\<open>await Promise.all(ps)\<close>: all the values in order, or the exception of a rejected one.\<close>

fun Promise_all :: "('e + 'a) list \<Rightarrow> 'e + 'a list" where
  "Promise_all [] = Inr []"
| "Promise_all (Inl e # ps) = Inl e"
| "Promise_all (Inr v # ps) = (case Promise_all ps of Inl e \<Rightarrow> Inl e | Inr vs \<Rightarrow> Inr (v # vs))"

text \<open>
  \<^verbatim>\<open>POST /api/designs/:id/generate\<close>. \<open>cnt\<close> and \<open>prov\<close> are the \<^verbatim>\<open>count\<close> and \<^verbatim>\<open>provider\<close>
  fields of the body, \<open>None\<close> when the body omits them; \<open>api i\<close> is the live service as the
  \<open>i\<close>-th call of the batch meets it.
\<close>

definition generate_versions ::
  "environment \<Rightarrow> (nat \<Rightarrow> images_api) \<Rightarrow> store \<Rightarrow> authorization \<Rightarrow> string \<Rightarrow> int option
     \<Rightarrow> string option \<Rightarrow> nat \<Rightarrow> store \<times> response" where
  "generate_versions env api s h i cnt prov now =
     (case auth h of
        Inl r \<Rightarrow> (s, r)
      | Inr (Token uid rl) \<Rightarrow>
          let count = (case cnt of None \<Rightarrow> 3 | Some n \<Rightarrow> n);
              provider = (case prov of None \<Rightarrow> ''openai'' | Some p \<Rightarrow> p)
          in case doc (designs s) i of
             None \<Rightarrow> (s, reply 404 (Message ''Design not found''))
           | Some designData \<Rightarrow>
               if userId designData \<noteq> uid then (s, reply 403 (Message ''Access denied''))
               else case doc (projects s) (projectId designData) of
                 None \<Rightarrow> (s, reply 404 (Message ''Project not found''))
               | Some projectData \<Rightarrow>
                   (case Array_from count
                           (\<lambda>j. generateDesign env (api j) projectData (content designData) provider) of
                      Inl e \<Rightarrow> (s, reply 500 (Message ''Server error''))
                    | Inr promises \<Rightarrow>
                        (case Promise_all promises of
                           Inl e \<Rightarrow> (s, reply 500 (Message ''Server error''))
                         | Inr imageUrls \<Rightarrow>
                             (s\<lparr>designs := AList.update i
                                  (designData\<lparr>generatedImages := generatedImages designData @ imageUrls,
                                     currentVersion := currentVersion designData + count,
                                     updatedAt := now\<rparr>)
                                  (designs s)\<rparr>,
                              reply 200 (Generated ''New versions generated successfully''
                                imageUrls (currentVersion designData + count) provider)))))"

definition health :: response where
  "health = reply 200 (Health ''Design Agent API is running'' ''Firebase Firestore''
     [''openai'', ''gemini'', ''qwen''] ''healthy'')"

definition providers :: "environment \<Rightarrow> response" where
  "providers env =
     reply 200 (ProviderList
       [(''openai'', configured (OPENAI_API_KEY env)),
        (''gemini'', configured (GEMINI_API_KEY env)),
        (''qwen'', configured (QWEN_API_KEY env))])"

section \<open>Training data\<close>

text \<open>
  \<^verbatim>\<open>upload.single('image')\<close> runs between \<^verbatim>\<open>auth\<close> and the handler. Configured with memory
  storage and a file size limit of 5 MiB, it either hands the request on, with \<^verbatim>\<open>req.file\<close>
  set to the buffer when the body carried the image, or it refuses the body (a file over the
  limit, a file under another field name, a malformed multipart body) and passes the error to
  the final error-handling middleware.
\<close>

datatype upload = Refused | Passed "string option"

definition is_space :: "char \<Rightarrow> bool" where
  "is_space c = (c \<in> set [CHR '' '', CHR 0x09, CHR 0x0A, CHR 0x0B, CHR 0x0C, CHR 0x0D])"

definition trim :: "string \<Rightarrow> string" where
  "trim t = rev (dropWhile is_space (rev (dropWhile is_space t)))"

fun split :: "char \<Rightarrow> string \<Rightarrow> string list" where
  "split sep [] = [[]]"
| "split sep (c # cs) =
     (if c = sep then [] # split sep cs
      else case split sep cs of [] \<Rightarrow> [[c]] | w # ws \<Rightarrow> (c # w) # ws)"

text \<open>
  \<^verbatim>\<open>processAndSaveImage\<close>: \<open>sharp\<close> is the image library, \<open>None\<close> when it cannot decode the
  buffer; the function then throws. The path is kept as its components.
\<close>

definition processAndSaveImage ::
  "environment \<Rightarrow> (string \<Rightarrow> string option) \<Rightarrow> store \<Rightarrow> string \<Rightarrow> string \<Rightarrow> string
     \<Rightarrow> (store \<times> string list) option" where
  "processAndSaveImage env sharp s imageBuffer filename folder =
     (let uploadDir = [case UPLOAD_PATH env of
                         None \<Rightarrow> ''./uploads''
                       | Some root \<Rightarrow> if root = [] then ''./uploads'' else root,
                       folder]
      in case sharp imageBuffer of
           None \<Rightarrow> None
         | Some processedImage \<Rightarrow>
             Some (s\<lparr>files := files s @ [(uploadDir @ [filename], processedImage)]\<rparr>,
                   uploadDir @ [filename]))"

definition upload_training ::
  "environment \<Rightarrow> (string \<Rightarrow> string option) \<Rightarrow> store \<Rightarrow> authorization \<Rightarrow> upload \<Rightarrow> json
     \<Rightarrow> string option \<Rightarrow> json \<Rightarrow> string \<Rightarrow> nat \<Rightarrow> store \<times> response" where
  "upload_training env sharp s h up dt tg descr newId now =
     (case auth h of
        Inl r \<Rightarrow> (s, r)
      | Inr (Token uid rl) \<Rightarrow>
          (case up of
             Refused \<Rightarrow> (s, reply 500 (Message ''Something went wrong!''))
           | Passed file \<Rightarrow>
               if rl \<noteq> ''super_admin'' then
                 (s, reply 403 (Message ''Access denied. Super admin required.''))
               else case file of
                 None \<Rightarrow> (s, reply 400 (Message ''No image uploaded''))
               | Some buffer \<Rightarrow>
                   (case processAndSaveImage env sharp s buffer
                           (''training_'' @ decimal now [] @ ''.jpg'') ''training'' of
                      None \<Rightarrow> (s, reply 500 (Message ''Server error''))
                    | Some (s1, path) \<Rightarrow>
                        let entry = \<lparr>createdAt = now, updatedAt = now, uploadedBy = uid,
                              imagePath = path, td_designType = dt,
                              tags = (case tg of
                                        None \<Rightarrow> []
                                      | Some t \<Rightarrow> if t = [] then [] else map trim (split CHR '','' t)),
                              td_description = descr, isProcessed = False\<rparr>
                        in (s1\<lparr>trainingData := add newId entry (trainingData s1)\<rparr>,
                            reply 201 (TrainingJson ''Training data uploaded successfully''
                              newId entry)))))"

section \<open>The application\<close>

text \<open>
  The routes as one function of the request, for requests that the global middleware
  (security headers, CORS, body parsing, rate limiting) lets through. What a request does not
  determine comes with it: the identifier the store assigns to a new document, the clock, the
  live image service and the image library.
\<close>

datatype request =
    Register string string string string "(string \<times> json) list"
  | Login string string
  | Me authorization
  | ListProjects authorization
  | CreateProject authorization json json json json
  | ListDesigns authorization string
  | CreateDesign authorization string json json
  | GenerateVersions authorization string "int option" "string option"
  | ListProviders
  | HealthCheck
  | UploadTraining authorization upload json "string option" json

record outside =
  assignedId :: string
  clock :: nat
  images :: "nat \<Rightarrow> images_api"
  decoder :: "string \<Rightarrow> string option"

fun app :: "environment \<Rightarrow> store \<Rightarrow> request \<times> outside \<Rightarrow> store \<times> response" where
  "app env s (Register mail pw fname lname others, w) =
     register s mail pw fname lname others (assignedId w) (clock w)"
| "app env s (Login mail pw, w) = login s mail pw"
| "app env s (Me h, w) = me s h"
| "app env s (ListProjects h, w) = list_projects s h"
| "app env s (CreateProject h nm descr be dt, w) =
     create_project s h nm descr be dt (assignedId w) (clock w)"
| "app env s (ListDesigns h pid, w) = list_designs s h pid"
| "app env s (CreateDesign h pid c ref, w) = create_design s h pid c ref (assignedId w) (clock w)"
| "app env s (GenerateVersions h i cnt prov, w) =
     generate_versions env (images w) s h i cnt prov (clock w)"
| "app env s (ListProviders, w) = (s, providers env)"
| "app env s (HealthCheck, w) = (s, health)"
| "app env s (UploadTraining h up dt tg descr, w) =
     upload_training env (decoder w) s h up dt tg descr (assignedId w) (clock w)"

text \<open>The store after a history of requests, served one after the other.\<close>

fun serve :: "environment \<Rightarrow> store \<Rightarrow> (request \<times> outside) list \<Rightarrow> store" where
  "serve env s [] = s"
| "serve env s (rq # rest) = serve env (fst (app env s rq)) rest"

definition empty_store :: store where
  "empty_store = \<lparr>users = [], projects = [], designs = [], trainingData = [], files = []\<rparr>"

text \<open>
  Two properties of a store: every design lies in a project of the store that has the
  design's owner, and every design's version counter is the number of its images.
\<close>

definition parented :: "store \<Rightarrow> string \<times> design \<Rightarrow> bool" where
  "parented s e =
     (map_option userId (doc (projects s) (projectId (snd e))) = Some (userId (snd e)))"

definition parents_exist :: "store \<Rightarrow> bool" where
  "parents_exist s = list_all (parented s) (designs s)"

definition version_matches :: "string \<times> design \<Rightarrow> bool" where
  "version_matches e = (currentVersion (snd e) = int (length (generatedImages (snd e))))"

definition versions_match :: "store \<Rightarrow> bool" where
  "versions_match s = list_all version_matches (designs s)"

text \<open>A request whose \<^verbatim>\<open>count\<close>, if it sends one, is not negative.\<close>

fun natural_count :: "request \<times> outside \<Rightarrow> bool" where
  "natural_count (GenerateVersions h i (Some n) prov, w) = (0 \<le> n)"
| "natural_count rq = True"

section \<open>Sample data\<close>

text \<open>
  The scenario of the specification: Alice owns the project \<open>p1\<close> and the design \<open>d1\<close> in it,
  which already has one generated image. No provider key is set.
\<close>

definition alice_project :: project where
  "alice_project = \<lparr>createdAt = 1, updatedAt = 1, userId = ''alice'', name = JStr ''Sale Banner'',
     description = JUndefined,
     brandElements = JObj [(''colorPalette'', JArr []), (''fonts'', JArr [])],
     designType = JStr ''social_media''\<rparr>"

definition alice_design :: design where
  "alice_design = \<lparr>createdAt = 2, updatedAt = 2, userId = ''alice'', projectId = ''p1'',
     content = JObj [(''title'', JStr ''50% Off'')], baseReferenceImage = JUndefined,
     generatedImages = [''https://img.example/1.png''], currentVersion = 1, isActive = True\<rparr>"

definition example_store :: store where
  "example_store = \<lparr>users = [], projects = [(''p1'', alice_project)],
     designs = [(''d1'', alice_design)], trainingData = [], files = []\<rparr>"

definition no_keys :: environment where
  "no_keys = \<lparr>OPENAI_API_KEY = None, GEMINI_API_KEY = None, QWEN_API_KEY = None,
     UPLOAD_PATH = None\<rparr>"

definition offline :: "nat \<Rightarrow> images_api" where
  "offline j prompt = Rejects"

definition quiet :: outside where
  "quiet = \<lparr>assignedId = ''x'', clock = 0, images = offline, decoder = (\<lambda>b. None)\<rparr>"

definition alice :: authorization where
  "alice = Bearer (Token ''alice'' ''user'')"

definition bob :: authorization where
  "bob = Bearer (Token ''bob'' ''user'')"

text \<open>
  A history: Alice creates a project whose \<^verbatim>\<open>brandElements.colorPalette\<close> is the string
  \<^verbatim>\<open>red\<close> instead of an array, and a design in it.
\<close>

definition red_history :: "(request \<times> outside) list" where
  "red_history =
     [(CreateProject alice (JStr ''Sale Banner'') JUndefined
         (JObj [(''colorPalette'', JStr ''red'')]) (JStr ''logo''),
       quiet\<lparr>assignedId := ''p1'', clock := 1\<rparr>),
      (CreateDesign alice ''p1'' JUndefined JUndefined, quiet\<lparr>assignedId := ''d1'', clock := 2\<rparr>)]"

definition red_project :: project where
  "red_project = \<lparr>createdAt = 1, updatedAt = 1, userId = ''alice'', name = JStr ''Sale Banner'',
     description = JUndefined, brandElements = JObj [(''colorPalette'', JStr ''red'')],
     designType = JStr ''logo''\<rparr>"

definition red_design :: design where
  "red_design = \<lparr>createdAt = 2, updatedAt = 2, userId = ''alice'', projectId = ''p1'',
     content = JObj [], baseReferenceImage = JUndefined, generatedImages = [],
     currentVersion = 0, isActive = True\<rparr>"

definition red_store :: store where
  "red_store = \<lparr>users = [], projects = [(''p1'', red_project)], designs = [(''d1'', red_design)],
     trainingData = [], files = []\<rparr>"

lemmas example_defs = alice_project_def alice_design_def example_store_def no_keys_def offline_def
  quiet_def alice_def bob_def red_history_def red_project_def red_design_def red_store_def
  empty_store_def

lemmas adapter_defs = generateDesign_def buildPrompt_def brand_text_def content_text_def
  dispatch_def placeholder_def openai_def gemini_def configured_def

lemmas handler_defs = generate_versions_def create_design_def create_project_def list_designs_def
  list_projects_def register_def login_def me_def upload_training_def providers_def health_def
  auth_def reply_def doc_def add_def
  whereEq_def orderByDesc_def Array_from_def

section \<open>Auxiliary facts\<close>

subsection \<open>Promises, arrays and the adapter\<close>

lemma Promise_all_Inr: "Promise_all ps = Inr vs \<Longrightarrow> ps = map Inr vs"
proof (induction ps arbitrary: vs rule: Promise_all.induct)
  case 1
  then show ?case by simp
next
  case (2 e ps)
  then show ?case by simp
next
  case (3 v ps)
  then show ?case by (auto split: sum.splits)
qed

lemma Promise_all_map_Inr: "Promise_all (map Inr vs) = Inr vs"
  by (induction vs) simp_all

lemma Promise_all_Inl: "Promise_all ps = Inl e \<Longrightarrow> Inl e \<in> set ps"
  by (induction ps rule: Promise_all.induct) (auto split: sum.splits)

lemma Array_from_Inr:
  "Array_from len f = Inr xs \<Longrightarrow> xs = map f [0..<nat len] \<and> len \<le> 4294967295"
  by (auto simp: Array_from_def split: if_splits)

lemma generateDesign_Inl:
  "generateDesign env api p c provider = Inl e \<longleftrightarrow> buildPrompt p c = Inl e"
  by (auto simp: generateDesign_def split: sum.splits)

lemma generateDesign_Inr:
  "buildPrompt p c = Inr prompt \<Longrightarrow>
   generateDesign env api p c provider =
     Inr (case dispatch env api prompt provider of
            Inl e \<Rightarrow> placeholder ''EF4444'' ''Error+Generating+Design''
          | Inr url \<Rightarrow> url)"
  by (auto simp: generateDesign_def split: sum.splits)

text \<open>
  Once the prompt is built the adapter returns a URL whatever happens: the placeholder of an
  unconfigured client, the demo placeholder of an unknown provider, the error placeholder
  when the live call fails.
\<close>

lemma generateDesign_openai_unconfigured:
  "buildPrompt p c = Inr prompt \<Longrightarrow> \<not> openai env \<Longrightarrow>
   generateDesign env api p c ''openai'' = Inr (placeholder ''FF6B6B'' ''OpenAI+Not+Configured'')"
  by (simp add: generateDesign_def dispatch_def)

lemma generateDesign_gemini_unconfigured:
  "buildPrompt p c = Inr prompt \<Longrightarrow> \<not> gemini env \<Longrightarrow>
   generateDesign env api p c ''gemini'' = Inr (placeholder ''4F46E5'' ''Gemini+Not+Configured'')"
  by (simp add: generateDesign_def dispatch_def)

lemma generateDesign_unrecognized:
  "buildPrompt p c = Inr prompt \<Longrightarrow> provider \<notin> {''openai'', ''gemini'', ''qwen''} \<Longrightarrow>
   generateDesign env api p c provider =
     Inr (placeholder ''6B7280'' (''Demo+Design+'' @ toUpperCase provider))"
  by (simp add: generateDesign_def dispatch_def)

lemma generateDesign_live_failure:
  "buildPrompt p c = Inr prompt \<Longrightarrow> openai env \<Longrightarrow> api prompt \<in> {Rejects, Resolves []} \<Longrightarrow>
   generateDesign env api p c ''openai'' = Inr (placeholder ''EF4444'' ''Error+Generating+Design'')"
  by (auto simp: generateDesign_def dispatch_def)

text \<open>On values of the declared types the prompt is built, and the adapter returns a URL.\<close>

lemma join_strings: "list_all is_string xs \<Longrightarrow> \<exists>s. join sep xs = Inr s"
proof (induction xs)
  case Nil
  then show ?case by simp
next
  case (Cons x xs)
  then obtain t where "x = JStr t"
    by (cases x) simp_all
  with Cons show ?case
    by auto
qed

lemma brand_text_typed:
  assumes "is_BrandElements be" and "k \<in> {''colorPalette'', ''fonts''}"
  shows "\<exists>s. brand_text be k dflt = Inr s"
proof -
  from assms(1) obtain kvs where be: "be = JObj kvs"
    by (cases be) (simp_all add: is_BrandElements_def)
  from assms have opt: "optional string_array be k"
    by (auto simp: is_BrandElements_def be)
  show ?thesis
  proof (cases "map_of kvs k")
    case None
    then show ?thesis by (simp add: brand_text_def be)
  next
    case (Some v)
    with opt be have v: "v = JUndefined \<or> string_array v"
      by (simp add: optional_def)
    then show ?thesis
    proof
      assume "v = JUndefined"
      with Some show ?thesis by (simp add: brand_text_def be)
    next
      assume "string_array v"
      then obtain xs where xs: "v = JArr xs" "list_all is_string xs"
        by (cases v) simp_all
      from join_strings [OF xs(2)] obtain s where "join '', '' xs = Inr s"
        by blast
      with Some xs(1) show ?thesis by (simp add: brand_text_def be)
    qed
  qed
qed

lemma content_text_typed:
  assumes "is_DesignContent c"
    and "k \<in> {''title'', ''copy'', ''description'', ''cta'', ''footerContent''}"
  shows "\<exists>s. content_text c k = Inr s"
proof -
  from assms(1) obtain kvs where c: "c = JObj kvs"
    by (cases c) (simp_all add: is_DesignContent_def)
  from assms have "optional is_string c k"
    by (auto simp: is_DesignContent_def c)
  then obtain v where v: "property c k = Inr v" "v = JUndefined \<or> is_string v"
    by (auto simp: optional_def split: sum.splits)
  from v(2) have "\<exists>s. ToString v = Inr s"
    by (cases v) simp_all
  with v(1) show ?thesis
    by (auto simp: content_text_def)
qed

lemma buildPrompt_typed:
  assumes "is_Project p" and "is_DesignContent c"
  shows "\<exists>prompt. buildPrompt p c = Inr prompt"
proof -
  from assms(1) obtain dt where "ToString (designType p) = Inr dt"
    by (cases "designType p") (simp_all add: is_Project_def)
  moreover from assms(1) obtain colors fonts
    where "brand_text (brandElements p) ''colorPalette'' ''default'' = Inr colors"
      and "brand_text (brandElements p) ''fonts'' ''modern'' = Inr fonts"
    using brand_text_typed [of "brandElements p"] by (fastforce simp: is_Project_def)
  moreover from assms(2) obtain title copy descr cta footer
    where "content_text c ''title'' = Inr title"
      and "content_text c ''copy'' = Inr copy"
      and "content_text c ''description'' = Inr descr"
      and "content_text c ''cta'' = Inr cta"
      and "content_text c ''footerContent'' = Inr footer"
    using content_text_typed [of c] by fastforce
  ultimately show ?thesis
    by (simp add: buildPrompt_def)
qed

lemma generateDesign_typed:
  assumes "is_Project p" and "is_DesignContent c"
  shows "\<exists>url. generateDesign env api p c provider = Inr url"
proof -
  from assms obtain prompt where "buildPrompt p c = Inr prompt"
    using buildPrompt_typed by blast
  then show ?thesis
    by (simp add: generateDesign_Inr)
qed

subsection \<open>Collections\<close>

lemma doc_update: "doc (AList.update i d coll) j = (if j = i then Some d else doc coll j)"
  by (simp add: doc_def update_conv')

lemma doc_add: "doc coll i = Some d \<Longrightarrow> doc (add j e coll) i = Some d"
  by (simp add: doc_def add_def)

lemma doc_in_set: "doc coll i = Some d \<Longrightarrow> (i, d) \<in> set coll"
  by (simp add: doc_def map_of_SomeD)

lemma list_all_update:
  "list_all P al \<Longrightarrow> P (k, v) \<Longrightarrow> list_all P (AList.update k v al)"
  by (induction al) auto

subsection \<open>Every design keeps its parent project\<close>

lemma parented_projects_add:
  "parented s e \<Longrightarrow> parented (s\<lparr>projects := add j p (projects s)\<rparr>) e"
  by (auto simp: parented_def doc_add)

lemma parented_designs_upd [simp]: "parented (s\<lparr>designs := ds\<rparr>) = parented s"
  by (simp add: parented_def fun_eq_iff)

lemma parented_users_upd [simp]: "parented (s\<lparr>users := us\<rparr>) = parented s"
  by (simp add: parented_def fun_eq_iff)

lemma parented_training_upd [simp]: "parented (s\<lparr>trainingData := ts\<rparr>) = parented s"
  by (simp add: parented_def fun_eq_iff)

lemma parented_files_upd [simp]: "parented (s\<lparr>files := fs\<rparr>) = parented s"
  by (simp add: parented_def fun_eq_iff)

lemma register_parents:
  "parents_exist s \<Longrightarrow> parents_exist (fst (register s mail pw fname lname others newId now))"
  by (simp add: register_def parents_exist_def Let_def)

lemma create_project_parents:
  "parents_exist s \<Longrightarrow> parents_exist (fst (create_project s h nm descr be dt newId now))"
  by (auto simp: create_project_def parents_exist_def Let_def list_all_iff
      intro: parented_projects_add split: sum.splits token.splits)

lemma create_design_parents:
  "parents_exist s \<Longrightarrow> parents_exist (fst (create_design s h pid c ref newId now))"
  by (auto simp: create_design_def parents_exist_def Let_def add_def parented_def
      split: sum.splits token.splits option.splits)

lemma batch_length:
  assumes "Array_from len f = Inr promises" and "Promise_all promises = Inr imageUrls"
  shows "length imageUrls = nat len"
proof -
  from assms(1) have "length promises = nat len"
    by (auto dest: Array_from_Inr)
  moreover from assms(2) have "length promises = length imageUrls"
    by (auto dest: Promise_all_Inr)
  ultimately show ?thesis by simp
qed

lemma generate_versions_store_cases:
  "fst (generate_versions env api s h i cnt prov now) = s \<or>
   (\<exists>d imageUrls. doc (designs s) i = Some d \<and>
      length imageUrls = nat (case cnt of None \<Rightarrow> 3 | Some n \<Rightarrow> n) \<and>
      fst (generate_versions env api s h i cnt prov now) =
        s\<lparr>designs := AList.update i
            (d\<lparr>generatedImages := generatedImages d @ imageUrls,
               currentVersion := currentVersion d + (case cnt of None \<Rightarrow> 3 | Some n \<Rightarrow> n),
               updatedAt := now\<rparr>) (designs s)\<rparr>)"
  unfolding generate_versions_def Let_def
  by (auto split: sum.splits token.splits option.splits dest!: batch_length)

lemma generate_versions_store:
  obtains "fst (generate_versions env api s h i cnt prov now) = s"
  | d imageUrls where "doc (designs s) i = Some d"
      and "length imageUrls = nat (case cnt of None \<Rightarrow> 3 | Some n \<Rightarrow> n)"
      and "fst (generate_versions env api s h i cnt prov now) =
             s\<lparr>designs := AList.update i
                 (d\<lparr>generatedImages := generatedImages d @ imageUrls,
                    currentVersion := currentVersion d + (case cnt of None \<Rightarrow> 3 | Some n \<Rightarrow> n),
                    updatedAt := now\<rparr>) (designs s)\<rparr>"
  using generate_versions_store_cases [of env api s h i cnt prov now] by blast

lemma generate_versions_ok:
  assumes run: "generate_versions env api s h i cnt prov now = (s', r)"
    and ok: "status r = 200"
  obtains uid rl d p promises imageUrls where
    "h = Bearer (Token uid rl)"
    and "doc (designs s) i = Some d"
    and "userId d = uid"
    and "doc (projects s) (projectId d) = Some p"
    and "Array_from (case cnt of None \<Rightarrow> 3 | Some n \<Rightarrow> n)
           (\<lambda>j. generateDesign env (api j) p (content d)
                  (case prov of None \<Rightarrow> ''openai'' | Some q \<Rightarrow> q)) = Inr promises"
    and "Promise_all promises = Inr imageUrls"
    and "s' = s\<lparr>designs := AList.update i
               (d\<lparr>generatedImages := generatedImages d @ imageUrls,
                  currentVersion := currentVersion d + (case cnt of None \<Rightarrow> 3 | Some n \<Rightarrow> n),
                  updatedAt := now\<rparr>) (designs s)\<rparr>"
    and "r = reply 200 (Generated ''New versions generated successfully'' imageUrls
               (currentVersion d + (case cnt of None \<Rightarrow> 3 | Some n \<Rightarrow> n))
               (case prov of None \<Rightarrow> ''openai'' | Some q \<Rightarrow> q))"
proof -
  obtain uid rl where h: "h = Bearer (Token uid rl)"
  proof (cases h)
    case NoToken
    with run ok show ?thesis
      by (auto simp: generate_versions_def auth_def reply_def)
  next
    case BadToken
    with run ok show ?thesis
      by (auto simp: generate_versions_def auth_def reply_def)
  next
    case (Bearer t)
    then show ?thesis
      by (cases t) (auto intro: that)
  qed
  obtain d where d: "doc (designs s) i = Some d"
  proof (cases "doc (designs s) i")
    case None
    with run ok h show ?thesis
      by (auto simp: generate_versions_def auth_def reply_def)
  next
    case (Some d)
    then show ?thesis by (rule that)
  qed
  have owner: "userId d = uid"
  proof (rule ccontr)
    assume "userId d \<noteq> uid"
    with run ok h d show False
      by (auto simp: generate_versions_def auth_def reply_def)
  qed
  obtain p where p: "doc (projects s) (projectId d) = Some p"
  proof (cases "doc (projects s) (projectId d)")
    case None
    with run ok h d owner show ?thesis
      by (auto simp: generate_versions_def auth_def reply_def)
  next
    case (Some p)
    then show ?thesis by (rule that)
  qed
  let ?count = "case cnt of None \<Rightarrow> 3 | Some n \<Rightarrow> n"
  let ?provider = "case prov of None \<Rightarrow> ''openai'' | Some q \<Rightarrow> q"
  let ?calls = "Array_from ?count (\<lambda>j. generateDesign env (api j) p (content d) ?provider)"
  obtain promises where arr: "?calls = Inr promises"
  proof (cases ?calls)
    case (Inl e)
    with run ok h d owner p show ?thesis
      by (auto simp: generate_versions_def auth_def reply_def)
  next
    case (Inr promises)
    then show ?thesis by (rule that)
  qed
  obtain imageUrls where all: "Promise_all promises = Inr imageUrls"
  proof (cases "Promise_all promises")
    case (Inl e)
    with run ok h d owner p arr show ?thesis
      by (auto simp: generate_versions_def auth_def reply_def)
  next
    case (Inr imageUrls)
    then show ?thesis by (rule that)
  qed
  from run h d owner p arr all
  have "(s', r) = (s\<lparr>designs := AList.update i
               (d\<lparr>generatedImages := generatedImages d @ imageUrls,
                  currentVersion := currentVersion d + ?count,
                  updatedAt := now\<rparr>) (designs s)\<rparr>,
           reply 200 (Generated ''New versions generated successfully'' imageUrls
               (currentVersion d + ?count) ?provider))"
    by (auto simp: generate_versions_def auth_def Let_def)
  then show ?thesis
    using h d owner p arr all by (auto intro: that)
qed

lemma generate_versions_parents:
  assumes "parents_exist s"
  shows "parents_exist (fst (generate_versions env api s h i cnt prov now))"
proof (cases rule: generate_versions_store [of env api s h i cnt prov now])
  case 1
  with assms show ?thesis by simp
next
  case (2 d imageUrls)
  from 2(1) assms have "parented s (i, d)"
    by (auto simp: parents_exist_def list_all_iff dest: doc_in_set)
  then have "parented s (i, d\<lparr>generatedImages := generatedImages d @ imageUrls,
          currentVersion := currentVersion d + (case cnt of None \<Rightarrow> 3 | Some n \<Rightarrow> n),
          updatedAt := now\<rparr>)"
    by (simp add: parented_def)
  with assms show ?thesis
    unfolding 2(3) by (simp add: parents_exist_def list_all_update)
qed

lemma upload_training_parents:
  "parents_exist s \<Longrightarrow>
   parents_exist (fst (upload_training env sharp s h up dt tg descr newId now))"
  by (auto simp: upload_training_def parents_exist_def processAndSaveImage_def Let_def
      split: sum.splits token.splits option.splits upload.splits)

lemma app_parents: "parents_exist s \<Longrightarrow> parents_exist (fst (app env s rq))"
proof (cases rq)
  case (Pair r w)
  assume "parents_exist s"
  then show ?thesis unfolding Pair
    by (cases r)
      (simp_all add: register_parents create_project_parents create_design_parents
        generate_versions_parents upload_training_parents login_def list_designs_def
        me_def list_projects_def
        split: list.splits sum.splits token.splits option.splits)
qed

lemma serve_parents: "parents_exist s \<Longrightarrow> parents_exist (serve env s history)"
  by (induction history arbitrary: s) (simp_all add: app_parents)

lemma served_parents: "parents_exist (serve env empty_store history)"
  by (rule serve_parents) (simp add: parents_exist_def empty_store_def)

lemma parent_of_design:
  assumes "parents_exist s" and "doc (designs s) i = Some d"
  obtains p where "doc (projects s) (projectId d) = Some p" and "userId p = userId d"
proof -
  from assms have "parented s (i, d)"
    by (auto simp: parents_exist_def list_all_iff dest: doc_in_set)
  then show ?thesis
    by (auto simp: parented_def intro: that)
qed

lemma red_served: "serve no_keys empty_store red_history = red_store"
  by (simp add: example_defs handler_defs Let_def)

subsection \<open>The version counter, for counts that are not negative\<close>

lemma create_design_versions:
  "versions_match s \<Longrightarrow> versions_match (fst (create_design s h pid c ref newId now))"
  by (auto simp: create_design_def versions_match_def version_matches_def Let_def add_def
      split: sum.splits token.splits option.splits)

lemma generate_versions_versions:
  assumes "versions_match s" and "case cnt of None \<Rightarrow> True | Some n \<Rightarrow> 0 \<le> n"
  shows "versions_match (fst (generate_versions env api s h i cnt prov now))"
proof (cases rule: generate_versions_store [of env api s h i cnt prov now])
  case 1
  with assms(1) show ?thesis by simp
next
  case (2 d imageUrls)
  from assms(2) have nonneg: "0 \<le> (case cnt of None \<Rightarrow> 3 | Some n \<Rightarrow> n)"
    by (simp split: option.splits)
  from 2(1) assms(1) have "version_matches (i, d)"
    by (auto simp: versions_match_def list_all_iff dest: doc_in_set)
  with 2(2) nonneg
  have "version_matches (i, d\<lparr>generatedImages := generatedImages d @ imageUrls,
          currentVersion := currentVersion d + (case cnt of None \<Rightarrow> 3 | Some n \<Rightarrow> n),
          updatedAt := now\<rparr>)"
    by (simp add: version_matches_def)
  with assms(1) show ?thesis
    unfolding 2(3) by (simp add: versions_match_def list_all_update)
qed

lemma app_versions:
  assumes "versions_match s" and "natural_count rq"
  shows "versions_match (fst (app env s rq))"
proof (cases rq)
  case (Pair r w)
  show ?thesis
  proof (cases r)
    case (GenerateVersions h i cnt prov)
    with Pair assms(2) have "case cnt of None \<Rightarrow> True | Some n \<Rightarrow> 0 \<le> n"
      by (cases cnt) simp_all
    with assms(1) show ?thesis
      unfolding Pair GenerateVersions by (simp add: generate_versions_versions)
  next
    case (CreateDesign h pid c ref)
    with assms(1) show ?thesis
      unfolding Pair by (simp add: create_design_versions)
  qed (use assms(1) in \<open>auto simp: Pair versions_match_def register_def login_def me_def
        list_projects_def create_project_def list_designs_def upload_training_def
        processAndSaveImage_def Let_def
        split: list.splits sum.splits token.splits option.splits upload.splits\<close>)
qed

lemma serve_versions:
  "versions_match s \<Longrightarrow> list_all natural_count history \<Longrightarrow> versions_match (serve env s history)"
  by (induction history arbitrary: s) (simp_all add: app_versions)

section \<open>Generating versions\<close>

text \<open>
  C1. A generate-versions request with \<open>count = n\<close>, \<open>n\<close> a natural number, by the owner of an
  existing design whose \<open>currentVersion\<close> is \<open>v\<close> and whose \<open>generatedImages\<close> has \<open>v\<close> entries:
  if the request succeeds (status 200), the stored design has \<open>currentVersion = v + n\<close> and
  \<open>v + n\<close> images, the first \<open>v\<close> of them the previous images in their order, and the response
  reports \<open>totalVersions = v + n\<close> and as \<open>newVersions\<close> the \<open>n\<close> URLs that were appended.
\<close>

theorem generate_versions_appends:
  assumes "doc (designs s) i = Some d"
    and "userId d = uid"
    and "currentVersion d = int v"
    and "length (generatedImages d) = v"
    and "generate_versions env api s (Bearer (Token uid rl)) i (Some (int n)) prov now = (s', r)"
    and "status r = 200"
  shows "\<exists>d' new msg pv.
           doc (designs s') i = Some d' \<and>
           currentVersion d' = int (v + n) \<and>
           length (generatedImages d') = v + n \<and>
           take v (generatedImages d') = generatedImages d \<and>
           generatedImages d' = generatedImages d @ new \<and>
           length new = n \<and>
           payload r = Generated msg new (int (v + n)) pv"
proof -
  from assms(5,6) obtain uid' rl' d0 p promises imageUrls where
    "Bearer (Token uid rl) = Bearer (Token uid' rl')"
    and d0: "doc (designs s) i = Some d0"
    and arr: "Array_from (case Some (int n) of None \<Rightarrow> 3 | Some m \<Rightarrow> m)
           (\<lambda>j. generateDesign env (api j) p (content d0)
                  (case prov of None \<Rightarrow> ''openai'' | Some q \<Rightarrow> q)) = Inr promises"
    and all: "Promise_all promises = Inr imageUrls"
    and s': "s' = s\<lparr>designs := AList.update i
               (d0\<lparr>generatedImages := generatedImages d0 @ imageUrls,
                  currentVersion := currentVersion d0 + (case Some (int n) of None \<Rightarrow> 3 | Some m \<Rightarrow> m),
                  updatedAt := now\<rparr>) (designs s)\<rparr>"
    and r: "r = reply 200 (Generated ''New versions generated successfully'' imageUrls
               (currentVersion d0 + (case Some (int n) of None \<Rightarrow> 3 | Some m \<Rightarrow> m))
               (case prov of None \<Rightarrow> ''openai'' | Some q \<Rightarrow> q))"
    by (rule generate_versions_ok)
  from d0 assms(1) have same: "d0 = d"
    by simp
  from arr all have len: "length imageUrls = n"
    by (auto dest: batch_length)
  show ?thesis
    using s' r len assms(3,4) unfolding same by (simp add: doc_update reply_def)
qed

theorem generate_versions_appends_witness:
  "doc (designs example_store) ''d1'' = Some alice_design \<and>
   userId alice_design = ''alice'' \<and>
   currentVersion alice_design = int 1 \<and>
   length (generatedImages alice_design) = 1 \<and>
   status (snd (generate_versions no_keys offline example_store (Bearer (Token ''alice'' ''user''))
                  ''d1'' (Some (int 2)) (Some ''qwen'') 7)) = 200 \<and>
   (\<exists>d' new msg pv.
      doc (designs (fst (generate_versions no_keys offline example_store
                           (Bearer (Token ''alice'' ''user'')) ''d1'' (Some (int 2)) (Some ''qwen'') 7)))
        ''d1'' = Some d' \<and>
      currentVersion d' = int (1 + 2) \<and>
      length (generatedImages d') = 1 + 2 \<and>
      take 1 (generatedImages d') = generatedImages alice_design \<and>
      generatedImages d' = generatedImages alice_design @ new \<and>
      length new = 2 \<and>
      payload (snd (generate_versions no_keys offline example_store
                      (Bearer (Token ''alice'' ''user'')) ''d1'' (Some (int 2)) (Some ''qwen'') 7))
        = Generated msg new (int (1 + 2)) pv)"
proof -
  let ?run = "generate_versions no_keys offline example_store (Bearer (Token ''alice'' ''user''))
                ''d1'' (Some (int 2)) (Some ''qwen'') 7"
  have h1: "doc (designs example_store) ''d1'' = Some alice_design"
    by (simp add: doc_def example_defs)
  have h2: "userId alice_design = ''alice''"
    by (simp add: example_defs)
  have h3: "currentVersion alice_design = int 1"
    by (simp add: example_defs)
  have h4: "length (generatedImages alice_design) = 1"
    by (simp add: example_defs)
  have h5: "?run = (fst ?run, snd ?run)"
    by simp
  have h6: "status (snd ?run) = 200"
    by (simp add: handler_defs adapter_defs example_defs upt_rec)
  from generate_versions_appends [OF h1 h2 h3 h4 h5 h6] h1 h2 h3 h4 h6
  show ?thesis by blast
qed

lemma defaults_run:
  assumes "doc (designs s) i = Some d"
    and "userId d = uid"
    and "doc (projects s) (projectId d) = Some p"
    and "buildPrompt p (content d) = Inr prompt"
  shows "\<exists>u0 u1 u2.
           Array_from 3 (\<lambda>j. generateDesign env (api j) p (content d) ''openai'')
             = Inr [Inr u0, Inr u1, Inr u2] \<and>
           generate_versions env api s (Bearer (Token uid rl)) i None None now =
             (s\<lparr>designs := AList.update i
                  (d\<lparr>generatedImages := generatedImages d @ [u0, u1, u2],
                     currentVersion := currentVersion d + 3, updatedAt := now\<rparr>) (designs s)\<rparr>,
              reply 200 (Generated ''New versions generated successfully'' [u0, u1, u2]
                (currentVersion d + 3) ''openai''))"
proof -
  define u where "u j = (case dispatch env (api j) prompt ''openai'' of
      Inl e \<Rightarrow> placeholder ''EF4444'' ''Error+Generating+Design'' | Inr url \<Rightarrow> url)" for j
  have call: "generateDesign env (api j) p (content d) ''openai'' = Inr (u j)" for j
    unfolding u_def by (rule generateDesign_Inr [OF assms(4)])
  have three: "[0..<3] = [0, 1, 2::nat]"
    by (simp add: upt_rec)
  have arr: "Array_from 3 (\<lambda>j. generateDesign env (api j) p (content d) ''openai'')
      = Inr [Inr (u 0), Inr (u 1), Inr (u 2)]"
    by (simp add: Array_from_def three call)
  have "generate_versions env api s (Bearer (Token uid rl)) i None None now =
             (s\<lparr>designs := AList.update i
                  (d\<lparr>generatedImages := generatedImages d @ [u 0, u 1, u 2],
                     currentVersion := currentVersion d + 3, updatedAt := now\<rparr>) (designs s)\<rparr>,
              reply 200 (Generated ''New versions generated successfully'' [u 0, u 1, u 2]
                (currentVersion d + 3) ''openai''))"
    using assms(1,2,3) by (simp add: generate_versions_def auth_def arr)
  with arr show ?thesis by blast
qed




lemma zero_count_run:
  assumes "doc (designs s) i = Some d"
    and "userId d = uid"
    and "doc (projects s) (projectId d) = Some p"
  shows "generate_versions env api s (Bearer (Token uid rl)) i (Some 0) prov now =
           (s\<lparr>designs := AList.update i (d\<lparr>updatedAt := now\<rparr>) (designs s)\<rparr>,
            reply 200 (Generated ''New versions generated successfully'' [] (currentVersion d)
              (case prov of None \<Rightarrow> ''openai'' | Some q \<Rightarrow> q)))"
  using assms by (simp add: generate_versions_def auth_def Array_from_def)

text \<open>
  C10. In a store that the application has produced from the empty one, a generate-versions
  request with \<open>count = 0\<close> by the owner of an existing design succeeds: the response has status
  200, no new versions and \<open>totalVersions\<close> equal to the design's \<open>currentVersion\<close>, and the store
  changes in the design's \<open>updatedAt\<close> only.
\<close>

theorem generate_versions_zero:
  assumes "s = serve env empty_store history"
    and "doc (designs s) i = Some d"
    and "userId d = uid"
  shows "generate_versions env api s (Bearer (Token uid rl)) i (Some 0) prov now =
           (s\<lparr>designs := AList.update i (d\<lparr>updatedAt := now\<rparr>) (designs s)\<rparr>,
            reply 200 (Generated ''New versions generated successfully'' [] (currentVersion d)
              (case prov of None \<Rightarrow> ''openai'' | Some q \<Rightarrow> q)))"
proof -
  from assms(1) have "parents_exist s"
    by (simp add: served_parents)
  then obtain p where "doc (projects s) (projectId d) = Some p"
    using assms(2) by (rule parent_of_design)
  with assms(2,3) show ?thesis
    by (rule zero_count_run)
qed

theorem generate_versions_zero_witness:
  "red_store = serve no_keys empty_store red_history \<and>
   doc (designs red_store) ''d1'' = Some red_design \<and>
   userId red_design = ''alice'' \<and>
   generate_versions no_keys offline red_store (Bearer (Token ''alice'' ''user'')) ''d1'' (Some 0)
       (Some ''qwen'') 9 =
     (red_store\<lparr>designs := AList.update ''d1'' (red_design\<lparr>updatedAt := 9\<rparr>) (designs red_store)\<rparr>,
      reply 200 (Generated ''New versions generated successfully'' [] (currentVersion red_design)
        ''qwen''))"
proof -
  have h1: "red_store = serve no_keys empty_store red_history"
    by (simp add: red_served)
  have h2: "doc (designs red_store) ''d1'' = Some red_design"
    by (simp add: doc_def red_store_def)
  have h3: "userId red_design = ''alice''"
    by (simp add: red_design_def)
  from generate_versions_zero [OF h1 h2 h3, of offline "''user''" "Some ''qwen''" 9] h1 h2 h3
  show ?thesis by simp
qed

text \<open>
  C2. Creating a design stores \<open>currentVersion = 0\<close> with no images, and generating writes the
  list and the counter in one update; with a count that is not negative the counter stays
  the number of images (\<open>create_design_versions\<close>, \<open>generate_versions_versions\<close>). The handler
  accepts a negative count as well: on Alice's design, which has one image and
  \<open>currentVersion = 1\<close>, the request with \<open>count = -1\<close> is answered 200, appends nothing and
  stores \<open>currentVersion = 0\<close>, so that the counter no longer is the number of images.
\<close>

theorem generate_versions_negative_count:
  "version_matches (''d1'', alice_design) \<and>
   doc (designs example_store) ''d1'' = Some alice_design \<and>
   generate_versions no_keys offline example_store (Bearer (Token ''alice'' ''user'')) ''d1''
       (Some (- 1)) (Some ''qwen'') 7 =
     (example_store\<lparr>designs := [(''d1'', alice_design\<lparr>currentVersion := 0, updatedAt := 7\<rparr>)]\<rparr>,
      reply 200 (Generated ''New versions generated successfully'' [] 0 ''qwen'')) \<and>
   generatedImages (alice_design\<lparr>currentVersion := 0, updatedAt := 7\<rparr>)
     = [''https://img.example/1.png''] \<and>
   \<not> version_matches (''d1'', alice_design\<lparr>currentVersion := 0, updatedAt := 7\<rparr>)"
  by (simp add: handler_defs example_defs version_matches_def)

section \<open>The generation adapter and its callers\<close>

text \<open>
  C3. \<open>generateDesign\<close> is meant never to raise: the \<open>catch\<close> clause absorbs every failure of
  the dispatch into the error placeholder (\<open>generateDesign_Inr\<close>, \<open>generateDesign_live_failure\<close>),
  and an unconfigured or unrecognized provider yields its placeholder
  (\<open>generateDesign_openai_unconfigured\<close>, \<open>generateDesign_unrecognized\<close>). The prompt is built
  outside the \<open>try\<close> block, though. After the history \<open>red_history\<close>, in which Alice stores a
  project whose \<open>colorPalette\<close> is a string, the call for the unconfigured provider \<open>openai\<close>
  raises a TypeError, and the generate-versions request is answered 500.
\<close>

theorem generateDesign_raises:
  "serve no_keys empty_store red_history = red_store \<and>
   doc (projects red_store) ''p1'' = Some red_project \<and>
   doc (designs red_store) ''d1'' = Some red_design \<and>
   \<not> openai no_keys \<and>
   generateDesign no_keys (offline 0) red_project (content red_design) ''openai'' = Inl TypeError \<and>
   generate_versions no_keys offline red_store alice ''d1'' None None 3 =
     (red_store, reply 500 (Message ''Server error''))"
  by (simp add: red_served) (simp add: handler_defs adapter_defs example_defs upt_rec)

text \<open>
  C9, as stated, fails on a project from which the prompt cannot be built: the call raises
  before the provider is looked at.
\<close>

theorem generateDesign_qwen_counterexample:
  "generateDesign (no_keys\<lparr>QWEN_API_KEY := Some ''sk-qwen''\<rparr>) (offline 0) red_project (JObj [])
     ''qwen''
     = Inl TypeError \<and>
   generateDesign (no_keys\<lparr>QWEN_API_KEY := Some ''sk-qwen''\<rparr>) (offline 0) red_project (JObj [])
     ''qwen''
   \<noteq> Inr ''https://via.placeholder.com/1024x1024/10B981/FFFFFF?text=Qwen+Generated+Design''"
  by (simp add: adapter_defs example_defs)

text \<open>
  C9, amended. For every project and content from which the prompt can be built,
  \<open>generateDesign\<close> with provider \<open>qwen\<close> returns the fixed URL
  \<^verbatim>\<open>https://via.placeholder.com/1024x1024/10B981/FFFFFF?text=Qwen+Generated+Design\<close>, whatever
  the environment (with or without \<open>QWEN_API_KEY\<close>) and whatever the live service would answer,
  while the providers listing reports qwen as available exactly when its key is set.
\<close>

theorem generateDesign_qwen:
  assumes "buildPrompt p c = Inr prompt"
  shows "generateDesign env api p c ''qwen'' =
           Inr ''https://via.placeholder.com/1024x1024/10B981/FFFFFF?text=Qwen+Generated+Design'' \<and>
         providers env = reply 200 (ProviderList
           [(''openai'', configured (OPENAI_API_KEY env)),
            (''gemini'', configured (GEMINI_API_KEY env)),
            (''qwen'', QWEN_API_KEY env \<noteq> None \<and> QWEN_API_KEY env \<noteq> Some [])])"
  using assms
  by (auto simp: generateDesign_def dispatch_def placeholder_def providers_def configured_def
      split: option.splits)

theorem generateDesign_qwen_witness:
  "(\<exists>prompt. buildPrompt alice_project (content alice_design) = Inr prompt) \<and>
   generateDesign (no_keys\<lparr>QWEN_API_KEY := Some ''sk-qwen''\<rparr>) (offline 0) alice_project
       (content alice_design) ''qwen'' =
     Inr ''https://via.placeholder.com/1024x1024/10B981/FFFFFF?text=Qwen+Generated+Design'' \<and>
   providers (no_keys\<lparr>QWEN_API_KEY := Some ''sk-qwen''\<rparr>) =
     reply 200 (ProviderList [(''openai'', False), (''gemini'', False), (''qwen'', True)])"
proof -
  obtain prompt where h: "buildPrompt alice_project (content alice_design) = Inr prompt"
    by (simp add: adapter_defs example_defs)
  from generateDesign_qwen [OF h, of "no_keys\<lparr>QWEN_API_KEY := Some ''sk-qwen''\<rparr>" "offline 0"] h
  show ?thesis by (simp add: no_keys_def configured_def)
qed

section \<open>Ownership and roles\<close>

lemma create_design_missing_project:
  assumes "doc (projects s) pid = None"
  shows "create_design s (Bearer (Token uid rl)) pid c ref newId now =
           (s, reply 404 (Message ''Project not found''))"
  using assms by (simp add: create_design_def auth_def)

text \<open>
  C4, as stated, fails: Bob asks for a design in Alice's project \<open>p1\<close> and is answered 404,
  not 403.
\<close>

theorem create_design_foreign_project_counterexample:
  "doc (projects example_store) ''p1'' = Some alice_project \<and>
   userId alice_project \<noteq> ''bob'' \<and>
   status (snd (create_design example_store (Bearer (Token ''bob'' ''user'')) ''p1'' (JObj [])
                  JUndefined ''d2'' 5)) = 404"
  by (simp add: handler_defs example_defs)

text \<open>
  C4, amended. A create-design request whose \<open>projectId\<close> refers to an existing project of
  another user is answered with status 404 and the message \<^verbatim>\<open>Project not found\<close>, the very
  response for a missing project (\<open>create_design_missing_project\<close>), and stores nothing.
\<close>

theorem create_design_foreign_project:
  assumes "doc (projects s) pid = Some p" and "userId p \<noteq> uid"
  shows "create_design s (Bearer (Token uid rl)) pid c ref newId now =
           (s, reply 404 (Message ''Project not found''))"
  using assms by (simp add: create_design_def auth_def)

theorem create_design_foreign_project_witness:
  "doc (projects example_store) ''p1'' = Some alice_project \<and>
   userId alice_project \<noteq> ''bob'' \<and>
   create_design example_store (Bearer (Token ''bob'' ''user'')) ''p1'' (JObj []) JUndefined ''d2'' 5 =
     (example_store, reply 404 (Message ''Project not found''))"
proof -
  have h1: "doc (projects example_store) ''p1'' = Some alice_project"
    by (simp add: doc_def example_defs)
  have h2: "userId alice_project \<noteq> ''bob''"
    by (simp add: example_defs)
  from create_design_foreign_project [OF h1 h2] h1 h2
  show ?thesis by simp
qed



text \<open>
  C6. Listing the designs of a project answers 200 with exactly the designs whose \<open>projectId\<close>
  is the requested one and whose \<open>userId\<close> is the caller's: the two filters combine as a
  conjunction. If none of the project's designs belongs to the caller, the list is empty.
\<close>

theorem list_designs_scoped:
  "\<exists>ds. list_designs s (Bearer (Token uid rl)) pid = (s, reply 200 (DesignList ds)) \<and>
        set ds = {(i, d). (i, d) \<in> set (designs s) \<and> projectId d = pid \<and> userId d = uid} \<and>
        ((\<forall>(i, d) \<in> set (designs s). projectId d = pid \<longrightarrow> userId d \<noteq> uid) \<longrightarrow> ds = [])"
proof -
  let ?ds = "orderByDesc createdAt (whereEq userId uid (whereEq projectId pid (designs s)))"
  have run: "list_designs s (Bearer (Token uid rl)) pid = (s, reply 200 (DesignList ?ds))"
    by (simp add: list_designs_def auth_def)
  have members:
    "set ?ds = {(i, d). (i, d) \<in> set (designs s) \<and> projectId d = pid \<and> userId d = uid}"
    by (auto simp: orderByDesc_def whereEq_def)
  have "?ds = []" if "\<forall>(i, d) \<in> set (designs s). projectId d = pid \<longrightarrow> userId d \<noteq> uid"
  proof -
    from that members have "set ?ds = {}" by auto
    then show ?thesis by simp
  qed
  with run members show ?thesis by blast
qed

theorem list_designs_scoped_witness:
  "list_designs example_store (Bearer (Token ''bob'' ''user'')) ''p1'' =
     (example_store, reply 200 (DesignList []))"
proof -
  have "\<forall>(i, d) \<in> set (designs example_store). projectId d = ''p1'' \<longrightarrow> userId d \<noteq> ''bob''"
    by (simp add: example_defs)
  with list_designs_scoped [of example_store "''bob''" "''user''" "''p1''"]
  show ?thesis by auto
qed

section \<open>Registration\<close>

text \<open>
  C7. Registering an email that no stored user has succeeds with status 201 and stores the
  user with role \<open>user\<close>, whatever else the body contains (a \<open>role\<close> field among the others);
  a login with the same email and password on the resulting store succeeds with status 200
  and returns a token that carries the new user's identifier and the role \<open>user\<close>.
\<close>

theorem register_then_login:
  assumes "whereEq email mail (users s) = []"
  shows "register s mail pw fname lname others newId now =
           (s\<lparr>users := users s @ [(newId, \<lparr>createdAt = now, updatedAt = now, email = mail,
                 password = bcrypt_hash pw, firstName = fname, lastName = lname,
                 role = ''user''\<rparr>)]\<rparr>,
            reply 201 (Authenticated ''User created successfully'' (Token newId ''user'')
              (UserView newId mail fname lname ''user''))) \<and>
         login (fst (register s mail pw fname lname others newId now)) mail pw =
           (fst (register s mail pw fname lname others newId now),
            reply 200 (Authenticated ''Login successful'' (Token newId ''user'')
              (UserView newId mail fname lname ''user'')))"
  using assms
  by (simp add: register_def login_def Let_def add_def whereEq_def bcrypt_compare_def)

theorem register_then_login_witness:
  "whereEq email ''alice@x.com'' (users empty_store) = [] \<and>
   status (snd (register empty_store ''alice@x.com'' ''secret'' ''Alice'' ''A''
                  [(''role'', JStr ''super_admin'')] ''u1'' 5)) = 201 \<and>
   map (\<lambda>(i, u). (i, role u))
     (users (fst (register empty_store ''alice@x.com'' ''secret'' ''Alice'' ''A''
                    [(''role'', JStr ''super_admin'')] ''u1'' 5))) = [(''u1'', ''user'')] \<and>
   snd (login (fst (register empty_store ''alice@x.com'' ''secret'' ''Alice'' ''A''
                      [(''role'', JStr ''super_admin'')] ''u1'' 5)) ''alice@x.com'' ''secret'') =
     reply 200 (Authenticated ''Login successful'' (Token ''u1'' ''user'')
       (UserView ''u1'' ''alice@x.com'' ''Alice'' ''A'' ''user''))"
proof -
  let ?reg = "register empty_store ''alice@x.com'' ''secret'' ''Alice'' ''A''
                [(''role'', JStr ''super_admin'')] ''u1'' 5"
  have h: "whereEq email ''alice@x.com'' (users empty_store) = []"
    by (simp add: whereEq_def empty_store_def)
  note both = register_then_login [OF h, of "''secret''" "''Alice''" "''A''"
      "[(''role'', JStr ''super_admin'')]" "''u1''" 5]
  from both have reg: "?reg =
      (empty_store\<lparr>users := users empty_store @ [(''u1'', \<lparr>createdAt = 5, updatedAt = 5,
           email = ''alice@x.com'', password = bcrypt_hash ''secret'', firstName = ''Alice'',
           lastName = ''A'', role = ''user''\<rparr>)]\<rparr>,
       reply 201 (Authenticated ''User created successfully'' (Token ''u1'' ''user'')
         (UserView ''u1'' ''alice@x.com'' ''Alice'' ''A'' ''user'')))"
    by (rule conjunct1)
  from both have log: "login (fst ?reg) ''alice@x.com'' ''secret'' =
      (fst ?reg, reply 200 (Authenticated ''Login successful'' (Token ''u1'' ''user'')
         (UserView ''u1'' ''alice@x.com'' ''Alice'' ''A'' ''user'')))"
    by (rule conjunct2)
  have c1: "status (snd ?reg) = 201"
    by (simp add: reg reply_def)
  have c2: "map (\<lambda>(i, u). (i, role u)) (users (fst ?reg)) = [(''u1'', ''user'')]"
    unfolding reg by (simp add: empty_store_def)
  have c3: "snd (login (fst ?reg) ''alice@x.com'' ''secret'') =
      reply 200 (Authenticated ''Login successful'' (Token ''u1'' ''user'')
        (UserView ''u1'' ''alice@x.com'' ''Alice'' ''A'' ''user''))"
    by (simp only: log snd_conv)
  from h c1 c2 c3 show ?thesis by blast
qed

end
